theory Spec2Isabelle
  imports Complex_Main
begin

chapter \<open>Tasmota adapter: property synchronisation\<close>

text \<open>
  The properties of the adapter's devices cache the state of a Tasmota device, write
  commands to it and poll it. This development embeds the light properties and the light
  device classes, the power plug's on/off property with its channel probe, and the plug
  device's poll cycle, and settles what these do on success and on failure.
\<close>

section \<open>JavaScript values read from the device\<close>

text \<open>
  A response body, once \<open>response.json()\<close> has parsed it, is a JSON value. Numbers are
  kept as integers (the program forwards them and tests them for truthiness only). An
  object is the list of its own properties; \<open>map_of\<close> reads a property. A property that
  is absent reads as \<open>undefined\<close>, which is \<open>None\<close> in a \<open>json option\<close>.
\<close>

datatype json =
    JNull
  | JBool bool
  | JNum int
  | JStr string
  | JArr "json list"
  | JObj "(string \<times> json) list"

datatype error =
    TransportFailure
  | ParseFailure
  | TypeError
  | ValidationRejected

text \<open>A JavaScript number as far as the color width needs it: a rational or NaN.\<close>

datatype jsnum = Num rat | NaN

text \<open>Truthiness of a value in \<open>if (x)\<close> and \<open>x || y\<close>.\<close>

fun truthy :: "json \<Rightarrow> bool" where
  "truthy JNull = False"
| "truthy (JBool b) = b"
| "truthy (JNum n) = (n \<noteq> 0)"
| "truthy (JStr s) = (s \<noteq> [])"
| "truthy (JArr xs) = True"
| "truthy (JObj fs) = True"

fun truthy_opt :: "json option \<Rightarrow> bool" where
  "truthy_opt None = False"
| "truthy_opt (Some v) = truthy v"

text \<open>
  \<open>x.name\<close> and \<open>x[name]\<close> for the property names this program reads (POWER, POWERn,
  Color, CT, Dimmer, WARNING, Command), none of which is a built-in property of a
  string, number, boolean or array: reading from \<open>null\<close> throws a TypeError, an object
  yields its own property, every other value yields \<open>undefined\<close>.
\<close>

fun get_prop :: "json \<Rightarrow> string \<Rightarrow> error + json option" where
  "get_prop JNull name = Inl TypeError"
| "get_prop (JObj fs) name = Inr (map_of fs name)"
| "get_prop v name = Inr None"

text \<open>Optional chaining \<open>x?.name\<close>: \<open>null\<close> yields \<open>undefined\<close> instead of throwing.\<close>

fun get_prop_opt :: "json \<Rightarrow> string \<Rightarrow> json option" where
  "get_prop_opt (JObj fs) name = map_of fs name"
| "get_prop_opt v name = None"

text \<open>
  Decimal rendering of a number in a template string, for the integers that JavaScript
  prints digit by digit.
\<close>

fun string_of_nat :: "nat \<Rightarrow> string" where
  "string_of_nat n =
     (if n < 10 then [''0123456789'' ! n]
      else string_of_nat (n div 10) @ [''0123456789'' ! (n mod 10)])"

definition string_of_int :: "int \<Rightarrow> string" where
  "string_of_int i = (if i < 0 then CHR ''-'' # string_of_nat (nat (- i)) else string_of_nat (nat i))"

text \<open>
  Conversion of a value to a string, as \<open>==\<close> against a string and \<open>Array.prototype.join\<close>
  perform it. An array joins its elements with commas, \<open>null\<close> elements rendering as
  the empty string. A parsed object has no callable \<open>toString\<close> of its own: it renders
  as \<open>[object Object]\<close> through the inherited one, unless an own property named
  \<open>toString\<close> shadows it, in which case the conversion throws a TypeError.
\<close>

fun js_to_string :: "json \<Rightarrow> error + string"
  and js_join :: "json list \<Rightarrow> error + string"
  and js_join_elem :: "json \<Rightarrow> error + string" where
  "js_to_string JNull = Inr ''null''"
| "js_to_string (JBool b) = Inr (if b then ''true'' else ''false'')"
| "js_to_string (JNum n) = Inr (string_of_int n)"
| "js_to_string (JStr s) = Inr s"
| "js_to_string (JArr xs) = js_join xs"
| "js_to_string (JObj fs) =
     (if ''toString'' \<in> fst ` set fs then Inl TypeError else Inr ''[object Object]'')"
| "js_join [] = Inr ''''"
| "js_join [x] = js_join_elem x"
| "js_join (x # y # ys) =
     (case js_join_elem x of
        Inl e \<Rightarrow> Inl e
      | Inr s \<Rightarrow> (case js_join (y # ys) of Inl e \<Rightarrow> Inl e | Inr r \<Rightarrow> Inr (s @ '','' @ r)))"
| "js_join_elem JNull = Inr ''''"
| "js_join_elem v = js_to_string v"

text \<open>
  \<open>x == 'ON'\<close> (loose equality against the literal). \<open>undefined\<close> and \<open>null\<close> equal
  only each other; a number or boolean is compared with the number the literal converts
  to, which is NaN, so the comparison is false; a string is compared as a string; an
  array or object is first converted to a string.
\<close>

fun loose_eq_ON :: "json option \<Rightarrow> error + bool" where
  "loose_eq_ON None = Inr False"
| "loose_eq_ON (Some JNull) = Inr False"
| "loose_eq_ON (Some (JBool b)) = Inr False"
| "loose_eq_ON (Some (JNum n)) = Inr False"
| "loose_eq_ON (Some (JStr s)) = Inr (s = ''ON'')"
| "loose_eq_ON (Some v) =
     (case js_to_string v of Inl e \<Rightarrow> Inl e | Inr s \<Rightarrow> Inr (s = ''ON''))"

section \<open>The status transport\<close>

text \<open>
  \<open>getStatus\<close> and \<open>setStatus\<close> of the api module are the external transport. A call
  either rejects or resolves to a response with a status and a body; \<open>body = None\<close>
  is a body on which \<open>response.json()\<close> rejects. Host and password are fixed per device
  and left out.
\<close>

record response =
  status :: nat
  statusText :: string
  body :: "json option"

record transport =
  getStatus :: "string \<Rightarrow> error + response"
  setStatus :: "string \<Rightarrow> string \<Rightarrow> error + response"

datatype request = Get string | Set string string

text \<open>\<open>await response.json()\<close>\<close>

definition json_of :: "response \<Rightarrow> error + json" where
  "json_of r = (case body r of None \<Rightarrow> Inl ParseFailure | Some j \<Rightarrow> Inr j)"

text \<open>\<open>const response = await getStatus(...); const result = await response.json()\<close>\<close>

definition fetch_json :: "error + response \<Rightarrow> error + json" where
  "fetch_json a = (case a of Inl e \<Rightarrow> Inl e | Inr r \<Rightarrow> json_of r)"

text \<open>The messages handed to \<open>debug\<close>, one constructor per call site.\<close>

datatype logmsg =
    SetValueOf
  | CouldNotSetStatus nat
  | WarningText string
  | CommandText string
  | CouldNotSetValue error
  | ValueChanged bool
  | DetectedChannel nat
  | ChannelNotAvailable nat

section \<open>Channel probing (power-plug.ts)\<close>

record probe =
  queried :: "string list"
  probe_log :: "logmsg list"

definition power_command :: "nat \<Rightarrow> string" where
  "power_command channel = ''POWER'' @ string_of_nat channel"

text \<open>\<open>status === 'ON' || status === 'OFF'\<close>\<close>

definition is_on_or_off :: "json option \<Rightarrow> bool" where
  "is_on_or_off st = (st = Some (JStr ''ON'') \<or> st = Some (JStr ''OFF''))"

definition isAvailable :: "transport \<Rightarrow> nat \<Rightarrow> probe \<Rightarrow> (error + bool) \<times> probe" where
  "isAvailable t channel p =
     (let command = power_command channel;
          p1 = p\<lparr>queried := queried p @ [command]\<rparr>
      in case fetch_json (getStatus t command) of
           Inl e \<Rightarrow> (Inl e, p1)
         | Inr js \<Rightarrow>
             (case get_prop js command of
                Inl e \<Rightarrow> (Inl e, p1)
              | Inr st \<Rightarrow>
                  (let available = is_on_or_off st
                   in if available
                      then (Inr available, p1\<lparr>probe_log := probe_log p1 @ [DetectedChannel channel]\<rparr>)
                      else (Inr available, p1\<lparr>probe_log := probe_log p1 @ [ChannelNotAvailable channel]\<rparr>))))"

text \<open>The loop \<open>for (let i = 1; i < 10; i++)\<close>, from index \<open>i\<close> with the channels found so far.\<close>

function probe_from :: "transport \<Rightarrow> nat \<Rightarrow> nat list \<Rightarrow> probe \<Rightarrow> (error + nat list) \<times> probe" where
  "probe_from t i channels p =
     (if i < 10
      then (case isAvailable t i p of
              (Inl e, p1) \<Rightarrow> (Inl e, p1)
            | (Inr available, p1) \<Rightarrow>
                probe_from t (Suc i) (if available then channels @ [i] else channels) p1)
      else (Inr channels, p))"
  by pat_completeness auto
termination
  by (relation "measure (\<lambda>(t, i, channels, p). 10 - i)") auto

declare probe_from.simps [simp del]

definition getAvailableChannels :: "transport \<Rightarrow> (error + nat list) \<times> probe" where
  "getAvailableChannels t = probe_from t 1 [] \<lparr>queried = [], probe_log = []\<rparr>"

section \<open>Properties (lights)\<close>

text \<open>
  The state of one property object: the cached value of the gateway's \<open>Property\<close> base
  class (\<open>None\<close> before any value was set), the values handed to
  \<open>setCachedValueAndNotify\<close> in order, the requests sent to the transport, the debug
  messages, and the rejections of promises that nobody awaited or handled.

  An async method is a function from the state to its outcome (\<open>Inl\<close> for a rejected
  promise) and the new state. Each call runs to its end before the next one starts:
  the interleaving of requests that are in flight together is not part of the model.
\<close>

record 'v property =
  cached :: "'v option"
  notified :: "'v list"
  sent :: "request list"
  logged :: "logmsg list"
  unhandled :: "error list"

definition new_property :: "'v property" where
  "new_property = \<lparr>cached = None, notified = [], sent = [], logged = [], unhandled = []\<rparr>"

definition debug :: "logmsg \<Rightarrow> ('v, 'm) property_scheme \<Rightarrow> ('v, 'm) property_scheme" where
  "debug m p = p\<lparr>logged := logged p @ [m]\<rparr>"

definition send :: "request \<Rightarrow> ('v, 'm) property_scheme \<Rightarrow> ('v, 'm) property_scheme" where
  "send r p = p\<lparr>sent := sent p @ [r]\<rparr>"

text \<open>
  \<open>Property.setCachedValueAndNotify\<close> and \<open>Property.setValue\<close> belong to the gateway
  library. The first stores the value and reports it; the second validates the value
  (read-only flag, type, bounds: the predicate \<open>accepts\<close>) and either rejects or stores
  and reports it.
\<close>

definition setCachedValueAndNotify :: "'v \<Rightarrow> ('v, 'm) property_scheme \<Rightarrow> ('v, 'm) property_scheme" where
  "setCachedValueAndNotify v p = p\<lparr>cached := Some v, notified := notified p @ [v]\<rparr>"

definition base_setValue ::
  "('v \<Rightarrow> bool) \<Rightarrow> 'v \<Rightarrow> ('v, 'm) property_scheme \<Rightarrow> (error + unit) \<times> ('v, 'm) property_scheme" where
  "base_setValue accepts v p =
     (if accepts v then (Inr (), setCachedValueAndNotify v p) else (Inl ValidationRejected, p))"

text \<open>\<open>PollingProperty.update\<close>\<close>

definition update :: "'v \<Rightarrow> ('v, 'm) property_scheme \<Rightarrow> ('v, 'm) property_scheme" where
  "update v p = setCachedValueAndNotify v p"

text \<open>
  A call of an async method whose promise is dropped: the method runs, and a rejection
  stays unhandled. The callback of \<open>setInterval(() => this.poll(), intervalMs)\<close> is
  such a call of \<open>poll\<close>.
\<close>

definition unawaited ::
  "(('v, 'm) property_scheme \<Rightarrow> (error + unit) \<times> ('v, 'm) property_scheme) \<Rightarrow>
   ('v, 'm) property_scheme \<Rightarrow> ('v, 'm) property_scheme" where
  "unawaited call p =
     (case call p of
        (Inl e, p1) \<Rightarrow> p1\<lparr>unhandled := unhandled p1 @ [e]\<rparr>
      | (Inr u, p1) \<Rightarrow> p1)"

text \<open>
  \<open>WritableProperty.setValue\<close>: the base class's \<open>setValue\<close> is awaited inside the
  \<open>try\<close>; the \<open>set\<close> closure is called without \<open>await\<close>, so its promise is dropped
  and the \<open>catch\<close> never sees its rejection.
\<close>

definition writable_setValue ::
  "('v \<Rightarrow> bool) \<Rightarrow>
   ('v \<Rightarrow> ('v, 'm) property_scheme \<Rightarrow> (error + unit) \<times> ('v, 'm) property_scheme) \<Rightarrow>
   'v \<Rightarrow> ('v, 'm) property_scheme \<Rightarrow> (error + unit) \<times> ('v, 'm) property_scheme" where
  "writable_setValue accepts set_closure v p =
     (case base_setValue accepts v (debug SetValueOf p) of
        (Inl e, p1) \<Rightarrow> (Inr (), debug (CouldNotSetValue e) p1)
      | (Inr u, p1) \<Rightarrow> (Inr (), unawaited (set_closure v) p1))"

text \<open>
  The inspection of a write's result, which every \<open>set\<close> closure repeats: a status other
  than 200 is logged; otherwise the body is parsed and a truthy \<open>WARNING\<close> is logged,
  with \<open>Command\<close> when that is truthy too. The log messages are template strings, which
  convert the field to a string.
\<close>

definition check_result ::
  "error + response \<Rightarrow> ('v, 'm) property_scheme \<Rightarrow> (error + unit) \<times> ('v, 'm) property_scheme" where
  "check_result a p =
     (case a of
        Inl e \<Rightarrow> (Inl e, p)
      | Inr result \<Rightarrow>
          if status result \<noteq> 200 then (Inr (), debug (CouldNotSetStatus (status result)) p)
          else (case json_of result of
                  Inl e \<Rightarrow> (Inl e, p)
                | Inr js \<Rightarrow>
                    (case get_prop js ''WARNING'' of
                       Inl e \<Rightarrow> (Inl e, p)
                     | Inr None \<Rightarrow> (Inr (), p)
                     | Inr (Some w) \<Rightarrow>
                         if truthy w
                         then (case js_to_string w of
                                 Inl e \<Rightarrow> (Inl e, p)
                               | Inr ws \<Rightarrow>
                                   (let p1 = debug (WarningText ws) p
                                    in case get_prop js ''Command'' of
                                         Inl e \<Rightarrow> (Inl e, p1)
                                       | Inr None \<Rightarrow> (Inr (), p1)
                                       | Inr (Some c) \<Rightarrow>
                                           if truthy c
                                           then (case js_to_string c of
                                                   Inl e \<Rightarrow> (Inl e, p1)
                                                 | Inr cs \<Rightarrow> (Inr (), debug (CommandText cs) p1))
                                           else (Inr (), p1)))
                         else (Inr (), p))))"

subsection \<open>OnOffProperty\<close>

definition onoff_set ::
  "transport \<Rightarrow> bool \<Rightarrow> (bool, 'm) property_scheme \<Rightarrow> (error + unit) \<times> (bool, 'm) property_scheme" where
  "onoff_set t v p =
     (let st = (if v then ''ON'' else ''OFF'')
      in check_result (setStatus t ''Power'' st) (send (Set ''Power'' st) p))"

definition onoff_poll ::
  "transport \<Rightarrow> (bool, 'm) property_scheme \<Rightarrow> (error + unit) \<times> (bool, 'm) property_scheme" where
  "onoff_poll t p =
     (let p1 = send (Get ''Power'') p
      in case fetch_json (getStatus t ''Power'') of
           Inl e \<Rightarrow> (Inl e, p1)
         | Inr result \<Rightarrow>
             (case get_prop result ''POWER'' of
                Inl e \<Rightarrow> (Inl e, p1)
              | Inr pw \<Rightarrow>
                  (case loose_eq_ON pw of
                     Inl e \<Rightarrow> (Inl e, p1)
                   | Inr b \<Rightarrow> (Inr (), update b p1))))"

subsection \<open>BrightnessProperty\<close>

text \<open>
  A poll caches whatever \<open>result.Dimmer\<close> was, \<open>undefined\<close> included; a write is
  typed (\<open>WritableProperty<number>\<close>) and caches the number written.
\<close>

definition brightness_set ::
  "transport \<Rightarrow> int \<Rightarrow> ('v, 'm) property_scheme \<Rightarrow> (error + unit) \<times> ('v, 'm) property_scheme" where
  "brightness_set t v p =
     check_result (setStatus t ''Dimmer'' (string_of_int v)) (send (Set ''Dimmer'' (string_of_int v)) p)"


subsection \<open>ColorTemperatureProperty\<close>

text \<open>
  The conversion module is not part of the property code: \<open>tasmotaToKelvin\<close> is a
  parameter, applied to \<open>result?.CT\<close> (possibly \<open>undefined\<close>), and \<open>kelvinToTasmota\<close>
  followed by the template's rendering is the parameter \<open>kelvinToTasmota_text\<close>.
\<close>

definition ct_set ::
  "('k \<Rightarrow> string) \<Rightarrow> transport \<Rightarrow> 'k \<Rightarrow> ('k, 'm) property_scheme \<Rightarrow>
   (error + unit) \<times> ('k, 'm) property_scheme" where
  "ct_set kelvinToTasmota_text t v p =
     check_result (setStatus t ''CT'' (kelvinToTasmota_text v))
       (send (Set ''CT'' (kelvinToTasmota_text v)) p)"

definition ct_poll ::
  "(json option \<Rightarrow> 'k) \<Rightarrow> transport \<Rightarrow> ('k, 'm) property_scheme \<Rightarrow>
   (error + unit) \<times> ('k, 'm) property_scheme" where
  "ct_poll tasmotaToKelvin t p =
     (let p1 = send (Get ''CT'') p
      in case fetch_json (getStatus t ''CT'') of
           Inl e \<Rightarrow> (Inl e, p1)
         | Inr result \<Rightarrow>
             if truthy result
             then (Inr (), update (tasmotaToKelvin (get_prop_opt result ''CT'')) p1)
             else (Inr (), p1))"

text \<open>\<open>setValue\<close> of the four writable light properties.\<close>

definition onoff_setValue ::
  "(bool \<Rightarrow> bool) \<Rightarrow> transport \<Rightarrow> bool \<Rightarrow> (bool, 'm) property_scheme \<Rightarrow>
   (error + unit) \<times> (bool, 'm) property_scheme" where
  "onoff_setValue accepts t v p = writable_setValue accepts (onoff_set t) v p"

definition brightness_setValue ::
  "(json option \<Rightarrow> bool) \<Rightarrow> transport \<Rightarrow> int \<Rightarrow> (json option, 'm) property_scheme \<Rightarrow>
   (error + unit) \<times> (json option, 'm) property_scheme" where
  "brightness_setValue accepts t n p =
     writable_setValue accepts (\<lambda>v. brightness_set t n) (Some (JNum n)) p"

definition ct_setValue ::
  "('k \<Rightarrow> bool) \<Rightarrow> ('k \<Rightarrow> string) \<Rightarrow> transport \<Rightarrow> 'k \<Rightarrow> ('k, 'm) property_scheme \<Rightarrow>
   (error + unit) \<times> ('k, 'm) property_scheme" where
  "ct_setValue accepts kelvinToTasmota_text t v p =
     writable_setValue accepts (ct_set kelvinToTasmota_text t) v p"

subsection \<open>ColorProperty\<close>

record color_property = "string property" +
  channels :: jsnum

text \<open>The constructor ends with \<open>this.channels = 0\<close>.\<close>

definition new_color_property :: color_property where
  "new_color_property =
     \<lparr>cached = None, notified = [], sent = [], logged = [], unhandled = [], channels = Num 0\<rparr>"

text \<open>The flags under \<open>manifest.moziot.config.experimental\<close>; the object may be absent.\<close>

record experimental =
  useWhiteLedInColorMode :: bool
  multiChannelRelay :: bool
  temperatureSensor :: bool

text \<open>\<open>s.substring(a, b)\<close> for \<open>a \<le> b\<close>, and \<open>s.repeat(3)\<close>.\<close>

definition substring :: "nat \<Rightarrow> nat \<Rightarrow> string \<Rightarrow> string" where
  "substring a b s = take (b - a) (drop a s)"

definition repeat3 :: "string \<Rightarrow> string" where
  "repeat3 s = s @ s @ s"




fun greater_than :: "jsnum \<Rightarrow> rat \<Rightarrow> bool" where
  "greater_than (Num r) k = (r > k)"
| "greater_than NaN k = False"


text \<open>The value handed to \<open>setStatus\<close> by the color \<open>set\<close> closure.\<close>

definition color_to_send :: "experimental option \<Rightarrow> jsnum \<Rightarrow> string \<Rightarrow> string" where
  "color_to_send ex chans v =
     (if (case ex of None \<Rightarrow> False | Some x \<Rightarrow> useWhiteLedInColorMode x)
      then (let grey = ''#'' @ repeat3 (substring 1 3 v)
            in if greater_than chans 3 \<and> v = grey then ''#000000'' @ substring 1 3 v else v)
      else v)"

definition color_set ::
  "experimental option \<Rightarrow> transport \<Rightarrow> string \<Rightarrow> 'm color_property_scheme \<Rightarrow>
   (error + unit) \<times> 'm color_property_scheme" where
  "color_set ex t v p =
     (let v1 = color_to_send ex (channels p) v
      in check_result (setStatus t ''Color'' v1) (send (Set ''Color'' v1) p))"

definition color_setValue ::
  "(string \<Rightarrow> bool) \<Rightarrow> experimental option \<Rightarrow> transport \<Rightarrow> string \<Rightarrow> 'm color_property_scheme \<Rightarrow>
   (error + unit) \<times> 'm color_property_scheme" where
  "color_setValue accepts ex t v p = writable_setValue accepts (color_set ex t) v p"






subsection \<open>ColorModeProperty\<close>


section \<open>Light devices\<close>

datatype light = DimmableLight | ColorTemperatureLight | ColorLight | ColorCtLight

text \<open>
  \<open>addProperty\<close> stores the property under its name in the device's map; the model
  keeps the names in insertion order. The constructors run the superclass's first.
\<close>

definition addProperty :: "string \<Rightarrow> string list \<Rightarrow> string list" where
  "addProperty name props = (if name \<in> set props then props else props @ [name])"

definition DimmableLight_properties :: "string list" where
  "DimmableLight_properties = addProperty ''brightness'' (addProperty ''on'' [])"

definition ColorTemperatureLight_properties :: "string list" where
  "ColorTemperatureLight_properties = addProperty ''colorTemperature'' DimmableLight_properties"

definition ColorLight_properties :: "string list" where
  "ColorLight_properties = addProperty ''color'' DimmableLight_properties"

definition ColorCtLight_properties :: "string list" where
  "ColorCtLight_properties =
     addProperty ''colorMode'' (addProperty ''colorTemperature'' ColorLight_properties)"

fun light_properties :: "light \<Rightarrow> string list" where
  "light_properties DimmableLight = DimmableLight_properties"
| "light_properties ColorTemperatureLight = ColorTemperatureLight_properties"
| "light_properties ColorLight = ColorLight_properties"
| "light_properties ColorCtLight = ColorCtLight_properties"

text \<open>
  \<open>PollingProperty.startPolling\<close> registers one timer for the property's poll; a timer is
  the property's name with its interval.
\<close>

type_synonym timer = "string \<times> nat"

definition property_startPolling :: "string \<Rightarrow> nat \<Rightarrow> timer list \<Rightarrow> timer list" where
  "property_startPolling name intervalMs timers = timers @ [(name, intervalMs)]"

text \<open>The four \<open>startPolling\<close> methods; each subclass calls \<open>super.startPolling\<close> first.\<close>

definition DimmableLight_startPolling :: "nat \<Rightarrow> timer list \<Rightarrow> timer list" where
  "DimmableLight_startPolling intervalMs timers =
     property_startPolling ''brightness'' intervalMs
       (property_startPolling ''on'' intervalMs timers)"

definition ColorTemperatureLight_startPolling :: "nat \<Rightarrow> timer list \<Rightarrow> timer list" where
  "ColorTemperatureLight_startPolling intervalMs timers =
     property_startPolling ''colorTemperature'' intervalMs
       (DimmableLight_startPolling intervalMs timers)"

definition ColorLight_startPolling :: "nat \<Rightarrow> timer list \<Rightarrow> timer list" where
  "ColorLight_startPolling intervalMs timers =
     property_startPolling ''color'' intervalMs
       (DimmableLight_startPolling intervalMs timers)"

definition ColorCtLight_startPolling :: "nat \<Rightarrow> timer list \<Rightarrow> timer list" where
  "ColorCtLight_startPolling intervalMs timers =
     property_startPolling ''colorMode'' intervalMs
       (property_startPolling ''colorTemperature'' intervalMs
          (ColorLight_startPolling intervalMs timers))"

fun startPolling :: "light \<Rightarrow> nat \<Rightarrow> timer list \<Rightarrow> timer list" where
  "startPolling DimmableLight = DimmableLight_startPolling"
| "startPolling ColorTemperatureLight = ColorTemperatureLight_startPolling"
| "startPolling ColorLight = ColorLight_startPolling"
| "startPolling ColorCtLight = ColorCtLight_startPolling"

section \<open>Power plug (power-plug.ts)\<close>

record plug_onoff = "bool property" +
  lastState :: "bool option"
  channel :: string

definition new_plug_onoff :: "string \<Rightarrow> plug_onoff" where
  "new_plug_onoff ch =
     \<lparr>cached = None, notified = [], sent = [], logged = [], unhandled = [],
      lastState = None, channel = ch\<rparr>"

text \<open>\<open>OnOffProperty.setValue\<close> of the plug: every \<open>await\<close> is inside the \<open>try\<close>.\<close>

definition plug_setValue ::
  "(bool \<Rightarrow> bool) \<Rightarrow> transport \<Rightarrow> bool \<Rightarrow> 'm plug_onoff_scheme \<Rightarrow>
   (error + unit) \<times> 'm plug_onoff_scheme" where
  "plug_setValue accepts t v p =
     (case base_setValue accepts v (debug SetValueOf p) of
        (Inl e, p1) \<Rightarrow> (Inr (), debug (CouldNotSetValue e) p1)
      | (Inr u, p1) \<Rightarrow>
          (let st = (if v then ''ON'' else ''OFF'')
           in case check_result (setStatus t (''Power'' @ channel p1) st)
                     (send (Set (''Power'' @ channel p1) st) p1) of
                (Inl e, p2) \<Rightarrow> (Inr (), debug (CouldNotSetValue e) p2)
              | (Inr u, p2) \<Rightarrow> (Inr (), p2)))"

text \<open>\<open>OnOffProperty.updateValue\<close> of the plug.\<close>

definition updateValue ::
  "transport \<Rightarrow> 'm plug_onoff_scheme \<Rightarrow> (error + unit) \<times> 'm plug_onoff_scheme" where
  "updateValue t p =
     (let p1 = send (Get (''Power'' @ channel p)) p
      in case fetch_json (getStatus t (''Power'' @ channel p)) of
           Inl e \<Rightarrow> (Inl e, p1)
         | Inr result \<Rightarrow>
             (case get_prop result ''POWER'' of
                Inl e \<Rightarrow> (Inl e, p1)
              | Inr pw \<Rightarrow>
                  (case loose_eq_ON pw of
                     Inl e \<Rightarrow> (Inl e, p1)
                   | Inr v \<Rightarrow>
                       if lastState p1 \<noteq> Some v
                       then (Inr (), debug (ValueChanged v)
                                       (setCachedValueAndNotify v (p1\<lparr>lastState := Some v\<rparr>)))
                       else (Inr (), p1))))"

text \<open>
  The telemetry sample of \<open>getData\<close>: a name is bound to a value with its unit symbol,
  or absent.
\<close>

record data =
  data_value :: rat
  data_symbol :: string






section \<open>Notions used to state the properties\<close>

text \<open>
  Probing: the query for index \<open>i\<close> is answered by a body that parses to a value other
  than \<open>null\<close>; and the field \<open>POWERi\<close> of that answer.
\<close>

definition answers_json :: "transport \<Rightarrow> nat \<Rightarrow> bool" where
  "answers_json t i =
     (case getStatus t (power_command i) of
        Inl e \<Rightarrow> False
      | Inr r \<Rightarrow> (case body r of None \<Rightarrow> False | Some j \<Rightarrow> j \<noteq> JNull))"

definition reported :: "transport \<Rightarrow> nat \<Rightarrow> json option" where
  "reported t i =
     (case getStatus t (power_command i) of
        Inl e \<Rightarrow> None
      | Inr r \<Rightarrow> (case body r of None \<Rightarrow> None | Some j \<Rightarrow> get_prop_opt j (power_command i)))"

text \<open>A device that answers every request with the same status and body.\<close>

definition answering :: "nat \<Rightarrow> json option \<Rightarrow> transport" where
  "answering st b =
     \<lparr>getStatus = (\<lambda>c. Inr \<lparr>status = st, statusText = [], body = b\<rparr>),
      setStatus = (\<lambda>c x. Inr \<lparr>status = st, statusText = [], body = b\<rparr>)\<rparr>"

text \<open>A device that cannot be reached.\<close>

definition unreachable :: transport where
  "unreachable = \<lparr>getStatus = (\<lambda>c. Inl TransportFailure), setStatus = (\<lambda>c x. Inl TransportFailure)\<rparr>"

text \<open>
  A plug with five relays: \<open>POWER1\<close>, \<open>POWER3\<close> and \<open>POWER5\<close> are on, \<open>POWER2\<close> and
  \<open>POWER4\<close> are off, and any other query is answered by an empty object.
\<close>

definition five_relays :: transport where
  "five_relays =
     \<lparr>getStatus = (\<lambda>c. Inr \<lparr>status = 200, statusText = ''OK'',
         body = Some (JObj (if c \<in> {''POWER1'', ''POWER3'', ''POWER5''} then [(c, JStr ''ON'')]
                            else if c \<in> {''POWER2'', ''POWER4''} then [(c, JStr ''OFF'')]
                            else []))\<rparr>),
      setStatus = (\<lambda>c x. Inl TransportFailure)\<rparr>"

text \<open>The same plug, except that the query for \<open>POWER3\<close> fails in the transport.\<close>

definition third_query_fails :: transport where
  "third_query_fails =
     five_relays\<lparr>getStatus := (\<lambda>c. if c = ''POWER3'' then Inl TransportFailure
                                      else getStatus five_relays c)\<rparr>"




text \<open>
  Poll cycles of a plug's on/off property, and the boolean a cycle reads from the device
  (\<open>None\<close> when the cycle fails before a boolean is computed).
\<close>

definition plug_cycles :: "transport list \<Rightarrow> plug_onoff \<Rightarrow> plug_onoff" where
  "plug_cycles ts p = fold (\<lambda>t. unawaited (updateValue t)) ts p"

definition polled_value :: "transport \<Rightarrow> string \<Rightarrow> bool option" where
  "polled_value t ch =
     (case fetch_json (getStatus t (''Power'' @ ch)) of
        Inl e \<Rightarrow> None
      | Inr result \<Rightarrow>
          (case get_prop result ''POWER'' of
             Inl e \<Rightarrow> None
           | Inr pw \<Rightarrow> (case loose_eq_ON pw of Inl e \<Rightarrow> None | Inr v \<Rightarrow> Some v)))"

text \<open>The values of a sequence that differ from the value before them.\<close>

fun changes :: "bool option \<Rightarrow> bool list \<Rightarrow> bool list" where
  "changes prev [] = []"
| "changes prev (b # bs) = (if prev \<noteq> Some b then [b] else []) @ changes (Some b) bs"

text \<open>
  Modelled from the spec: the conversion module (\<open>tasmotaToKelvin\<close>, \<open>kelvinToTasmota\<close>)
  is not among the sources; the spec gives it as a pure, stateless numeric function
  supplied as input. The property code takes it as a parameter. Where a concrete one is
  needed, this one stands in: a number converts by division, and anything else,
  \<open>undefined\<close> included, gives NaN, as arithmetic on \<open>undefined\<close> does.
\<close>

definition example_tasmotaToKelvin :: "json option \<Rightarrow> jsnum" where
  "example_tasmotaToKelvin ct =
     (case ct of Some (JNum n) \<Rightarrow> (if n = 0 then NaN else Num (1000000 / of_int n)) | _ \<Rightarrow> NaN)"

text \<open>A value is an array or an object.\<close>

fun structured :: "json option \<Rightarrow> bool" where
  "structured (Some (JArr xs)) = True"
| "structured (Some (JObj fs)) = True"
| "structured v = False"

section \<open>Channel probing: results\<close>

lemma get_prop_non_null: "j \<noteq> JNull \<Longrightarrow> get_prop j name = Inr (get_prop_opt j name)"
  by (cases j) simp_all

lemma isAvailable_answered:
  assumes "answers_json t i"
  shows "isAvailable t i p =
     (Inr (is_on_or_off (reported t i)),
      p\<lparr>queried := queried p @ [power_command i],
        probe_log := probe_log p @
          [if is_on_or_off (reported t i) then DetectedChannel i else ChannelNotAvailable i]\<rparr>)"
  using assms
  by (auto simp: answers_json_def reported_def isAvailable_def fetch_json_def json_of_def
        get_prop_non_null Let_def split: sum.splits option.splits)

lemma isAvailable_transport_error:
  assumes "getStatus t (power_command i) = Inl e"
  shows "isAvailable t i p = (Inl e, p\<lparr>queried := queried p @ [power_command i]\<rparr>)"
  using assms by (simp add: isAvailable_def fetch_json_def Let_def)

lemma probe_from_answered:
  assumes "\<And>k. i \<le> k \<Longrightarrow> k < n \<Longrightarrow> answers_json t k" and "n \<le> 10" and "i \<le> n"
  shows "\<exists>p1. probe_from t i acc p =
      probe_from t n (acc @ filter (\<lambda>k. is_on_or_off (reported t k)) [i..<n]) p1
    \<and> queried p1 = queried p @ map power_command [i..<n]"
  using assms
proof (induction t i acc p rule: probe_from.induct)
  case (1 t i acc p)
  show ?case
  proof (cases "i < n")
    case False
    with "1.prems" have "i = n" by simp
    then show ?thesis by (auto intro: exI [of _ p])
  next
    case True
    then have lt: "i < 10" using "1.prems" by simp
    have a: "answers_json t i" using True "1.prems" by simp
    note av = isAvailable_answered [OF a, of p]
    have rest: "\<And>k. Suc i \<le> k \<Longrightarrow> k < n \<Longrightarrow> answers_json t k"
      using "1.prems" by simp
    from "1.IH" [OF lt av [symmetric] refl rest "1.prems"(2)] True
    obtain p1 where ih: "probe_from t (Suc i)
          (if is_on_or_off (reported t i) then acc @ [i] else acc)
          (p\<lparr>queried := queried p @ [power_command i],
             probe_log := probe_log p @
               [if is_on_or_off (reported t i) then DetectedChannel i else ChannelNotAvailable i]\<rparr>)
        = probe_from t n ((if is_on_or_off (reported t i) then acc @ [i] else acc)
             @ filter (\<lambda>k. is_on_or_off (reported t k)) [Suc i..<n]) p1"
      and q: "queried p1 = queried p @ [power_command i] @ map power_command [Suc i..<n]"
      by auto
    show ?thesis
      apply (rule exI [of _ p1])
      using True lt q
      apply (subst probe_from.simps)
      apply (simp add: av ih upt_conv_Cons)
      done
  qed
qed

lemma upt_1_10: "[Suc 0..<10] = [Suc 0, 2, 3, 4, 5, 6, 7, 8, 9]"
  by (simp add: upt_conv_Cons)

lemma probe_from_end: "probe_from t 10 acc p = (Inr acc, p)"
  by (simp add: probe_from.simps)

lemma isAvailable_cases:
  "(\<exists>e p1. isAvailable t i p = (Inl e, p1)) \<or> (\<exists>b p1. isAvailable t i p = (Inr b, p1))"
  by (cases "isAvailable t i p") (metis sumE)

lemma isAvailable_unanswered:
  assumes "\<not> answers_json t i"
  shows "\<exists>e. isAvailable t i p = (Inl e, p\<lparr>queried := queried p @ [power_command i]\<rparr>)"
proof (cases "getStatus t (power_command i)")
  case (Inl e)
  then show ?thesis by (simp add: isAvailable_transport_error)
next
  case (Inr r)
  show ?thesis
  proof (cases "body r")
    case None
    with Inr show ?thesis
      by (simp add: isAvailable_def fetch_json_def json_of_def Let_def)
  next
    case (Some j)
    with Inr assms have "j = JNull" by (simp add: answers_json_def)
    with Inr Some show ?thesis
      by (simp add: isAvailable_def fetch_json_def json_of_def Let_def)
  qed
qed

lemma probe_from_unanswered:
  assumes "\<not> answers_json t k" and "i \<le> k" and "k < 10"
  shows "\<exists>e. fst (probe_from t i acc p) = Inl e"
  using assms
proof (induction t i acc p rule: probe_from.induct)
  case (1 t i acc p)
  then have lt: "i < 10" by simp
  show ?case
  proof (cases "i = k")
    case True
    with "1.prems"(1) obtain e where "isAvailable t i p = (Inl e, p\<lparr>queried := queried p @ [power_command i]\<rparr>)"
      using isAvailable_unanswered [of t i p] by blast
    then show ?thesis using lt by (subst probe_from.simps) simp
  next
    case False
    then have le: "Suc i \<le> k" using "1.prems" by simp
    from isAvailable_cases [of t i p] show ?thesis
    proof (elim disjE exE)
      fix e1 p1 assume "isAvailable t i p = (Inl e1, p1)"
      then show ?thesis using lt by (subst probe_from.simps) simp
    next
      fix b p1 assume av: "isAvailable t i p = (Inr b, p1)"
      from "1.IH" [OF lt av [symmetric] refl "1.prems"(1) le "1.prems"(3)]
      show ?thesis using lt av by (subst probe_from.simps) simp
    qed
  qed
qed

text \<open>
  Claim C1, as the code has it. When each of the nine queries \<open>POWER1\<close> to \<open>POWER9\<close> is
  answered by a body that parses to a JSON value other than \<open>null\<close>, \<open>getAvailableChannels\<close>
  issues exactly these nine queries in order and returns, in ascending order, exactly the
  indices whose answer has the field \<open>POWERi\<close> equal to the string \<open>ON\<close> or the string
  \<open>OFF\<close>; any other value of the field, an absent field included, leaves the index out.
  In particular, when \<open>POWER1\<close> to \<open>POWER5\<close> are reported as \<open>ON\<close> or \<open>OFF\<close> and
  \<open>POWER6\<close> to \<open>POWER9\<close> are absent, the result is \<open>[1, 2, 3, 4, 5]\<close>. When one of
  the nine queries is rejected, or answered by a body that does not parse or that parses
  to \<open>null\<close>, the probe rejects and returns no list.
\<close>

theorem probe_channels:
  "((\<forall>i\<in>{1..9}. answers_json t i) \<longrightarrow>
      fst (getAvailableChannels t) =
        Inr (filter (\<lambda>i. reported t i = Some (JStr ''ON'') \<or> reported t i = Some (JStr ''OFF''))
               [1..<10])
    \<and> queried (snd (getAvailableChannels t)) = map power_command [1..<10]
    \<and> ((\<forall>i\<in>{1..5}. reported t i = Some (JStr ''ON'') \<or> reported t i = Some (JStr ''OFF''))
         \<and> (\<forall>i\<in>{6..9}. reported t i = None)
       \<longrightarrow> fst (getAvailableChannels t) = Inr [1, 2, 3, 4, 5]))
   \<and> ((\<exists>i\<in>{1..9}. \<not> answers_json t i) \<longrightarrow> (\<exists>e. fst (getAvailableChannels t) = Inl e))"
proof (intro conjI impI)
  assume all: "\<forall>i\<in>{1..9}. answers_json t i"
  have a: "\<And>k. 1 \<le> k \<Longrightarrow> k < 10 \<Longrightarrow> answers_json t k"
    using all by simp
  obtain p1 where run: "probe_from t 1 [] \<lparr>queried = [], probe_log = []\<rparr> =
      probe_from t 10 ([] @ filter (\<lambda>k. is_on_or_off (reported t k)) [1..<10]) p1"
    and q: "queried p1 = queried \<lparr>queried = [], probe_log = []\<rparr> @ map power_command [1..<10]"
    using probe_from_answered [of 1 10 t "[]" "\<lparr>queried = [], probe_log = []\<rparr>", OF a] by auto
  have r: "fst (getAvailableChannels t) = Inr (filter (\<lambda>k. is_on_or_off (reported t k)) [1..<10])"
    and s: "queried (snd (getAvailableChannels t)) = map power_command [1..<10]"
    using run q by (simp_all add: getAvailableChannels_def probe_from_end)
  show "fst (getAvailableChannels t) =
        Inr (filter (\<lambda>i. reported t i = Some (JStr ''ON'') \<or> reported t i = Some (JStr ''OFF''))
               [1..<10])"
    using r by (simp add: is_on_or_off_def)
  show "queried (snd (getAvailableChannels t)) = map power_command [1..<10]"
    by (rule s)
  assume hg: "(\<forall>i\<in>{1..5}. reported t i = Some (JStr ''ON'') \<or> reported t i = Some (JStr ''OFF''))
         \<and> (\<forall>i\<in>{6..9}. reported t i = None)"
  have "is_on_or_off (reported t 1)" "is_on_or_off (reported t 2)" "is_on_or_off (reported t 3)"
    "is_on_or_off (reported t 4)" "is_on_or_off (reported t 5)"
    using hg by (simp_all add: is_on_or_off_def)
  moreover have "\<not> is_on_or_off (reported t 6)" "\<not> is_on_or_off (reported t 7)"
    "\<not> is_on_or_off (reported t 8)" "\<not> is_on_or_off (reported t 9)"
    using hg by (simp_all add: is_on_or_off_def)
  ultimately have "filter (\<lambda>k. is_on_or_off (reported t k)) [1..<10] = [1, 2, 3, 4, 5]"
    by (simp add: upt_1_10)
  with r show "fst (getAvailableChannels t) = Inr [1, 2, 3, 4, 5]" by simp
next
  assume "\<exists>i\<in>{1..9}. \<not> answers_json t i"
  then obtain k where k: "1 \<le> k" "k < 10" "\<not> answers_json t k" by auto
  show "\<exists>e. fst (getAvailableChannels t) = Inl e"
    unfolding getAvailableChannels_def
    using probe_from_unanswered [OF k(3) k(1) k(2)] .
qed

lemma five_relays_answers: "answers_json five_relays i"
  by (simp add: answers_json_def five_relays_def)

theorem probe_channels_witness:
  "answers_json five_relays 1 \<and> answers_json five_relays 9
   \<and> reported five_relays 2 = Some (JStr ''OFF'') \<and> reported five_relays 6 = None
   \<and> fst (getAvailableChannels five_relays) = Inr [1, 2, 3, 4, 5]
   \<and> queried (snd (getAvailableChannels five_relays)) =
       [''POWER1'', ''POWER2'', ''POWER3'', ''POWER4'', ''POWER5'', ''POWER6'', ''POWER7'',
        ''POWER8'', ''POWER9'']
   \<and> \<not> answers_json (answering 200 None) 4
   \<and> (\<exists>e. fst (getAvailableChannels (answering 200 None)) = Inl e)"
proof -
  have h: "\<forall>i\<in>{1..9}. answers_json five_relays i"
    by (simp add: five_relays_answers)
  have r: "filter (\<lambda>i. reported five_relays i = Some (JStr ''ON'')
                      \<or> reported five_relays i = Some (JStr ''OFF'')) [1..<10] = [1, 2, 3, 4, 5]"
    by (simp add: upt_conv_Cons reported_def five_relays_def power_command_def)
  have q: "map power_command [1..<10] = [''POWER1'', ''POWER2'', ''POWER3'', ''POWER4'', ''POWER5'', ''POWER6'', ''POWER7'',
        ''POWER8'', ''POWER9'']"
    by (simp add: upt_conv_Cons power_command_def)
  have e: "reported five_relays 2 = Some (JStr ''OFF'')" "reported five_relays 6 = None"
    by (simp_all add: reported_def five_relays_def power_command_def)
  have n: "\<not> answers_json (answering 200 None) 4"
    by (simp add: answers_json_def answering_def)
  then have m: "\<exists>i\<in>{1..9}. \<not> answers_json (answering 200 None) i"
    by (intro bexI [of _ 4]) simp_all
  show ?thesis
    using probe_channels [of five_relays] probe_channels [of "answering 200 None"] h r q e n m
    by simp
qed

text \<open>
  A device that answers every query with the body \<open>null\<close>: the first read of \<open>POWER1\<close>
  from it throws, and the probe returns no list.
\<close>

theorem probe_channels_counterexample:
  "fst (getAvailableChannels (answering 200 (Some JNull))) = Inl TypeError
   \<and> queried (snd (getAvailableChannels (answering 200 (Some JNull)))) = [''POWER1'']"
  by (simp add: getAvailableChannels_def probe_from.simps isAvailable_def answering_def
      power_command_def fetch_json_def json_of_def)

lemma probe_from_transport_error:
  assumes "getStatus t (power_command i) = Inl e" and "i < 10"
  shows "probe_from t i acc p = (Inl e, p\<lparr>queried := queried p @ [power_command i]\<rparr>)"
  using assms by (subst probe_from.simps) (simp add: isAvailable_transport_error)

lemma probe_from_some_error:
  assumes "getStatus t (power_command k) = Inl e" and "i \<le> k" and "k < 10"
  shows "\<exists>e1. fst (probe_from t i acc p) = Inl e1"
  using assms
proof (induction t i acc p rule: probe_from.induct)
  case (1 t i acc p)
  then have lt: "i < 10" by simp
  show ?case
  proof (cases "i = k")
    case True
    then show ?thesis using "1.prems" by (simp add: probe_from_transport_error)
  next
    case False
    then have le: "Suc i \<le> k" using "1.prems" by simp
    from isAvailable_cases [of t i p] show ?thesis
    proof (elim disjE exE)
      fix e1 p1 assume "isAvailable t i p = (Inl e1, p1)"
      then show ?thesis using lt by (subst probe_from.simps) simp
    next
      fix b p1 assume av: "isAvailable t i p = (Inr b, p1)"
      from "1.IH" [OF lt av [symmetric] refl "1.prems"(1) le "1.prems"(3)]
      show ?thesis using lt av by (subst probe_from.simps) simp
    qed
  qed
qed

text \<open>
  Claim C7, as the code has it. A transport error while index \<open>i\<close> is probed is not
  taken as "unavailable": \<open>isAvailable\<close> has no handler, so the whole probe rejects and
  returns no channel list. When the indices before \<open>i\<close> were answered, the probe rejects
  with that very error and the indices after \<open>i\<close> are never queried.
\<close>

theorem probe_transport_error:
  assumes "i \<in> {1..9}" and "getStatus t (power_command i) = Inl e"
  shows "(\<exists>e1. fst (getAvailableChannels t) = Inl e1)
       \<and> ((\<forall>k\<in>{1..<i}. answers_json t k) \<longrightarrow>
            fst (getAvailableChannels t) = Inl e
          \<and> queried (snd (getAvailableChannels t)) = map power_command [1..<Suc i])"
proof -
  have i: "1 \<le> i" "i < 10" using assms(1) by simp_all
  have first: "\<exists>e1. fst (getAvailableChannels t) = Inl e1"
    unfolding getAvailableChannels_def
    using probe_from_some_error [OF assms(2) i] .
  have second: "fst (getAvailableChannels t) = Inl e
      \<and> queried (snd (getAvailableChannels t)) = map power_command [1..<Suc i]"
    if h: "\<forall>k\<in>{1..<i}. answers_json t k"
  proof -
    have a: "\<And>k. 1 \<le> k \<Longrightarrow> k < i \<Longrightarrow> answers_json t k" using h by simp
    obtain p1 where run: "probe_from t 1 [] \<lparr>queried = [], probe_log = []\<rparr> =
        probe_from t i ([] @ filter (\<lambda>k. is_on_or_off (reported t k)) [1..<i]) p1"
      and q: "queried p1 = queried \<lparr>queried = [], probe_log = []\<rparr> @ map power_command [1..<i]"
      using probe_from_answered [of 1 i t "[]" "\<lparr>queried = [], probe_log = []\<rparr>", OF a] i by auto
    show ?thesis
      using run q i by (simp add: getAvailableChannels_def probe_from_transport_error [OF assms(2) i(2)])
  qed
  show ?thesis using first second by blast
qed

theorem probe_transport_error_counterexample:
  "fst (getAvailableChannels third_query_fails) = Inl TransportFailure
   \<and> queried (snd (getAvailableChannels third_query_fails)) = [''POWER1'', ''POWER2'', ''POWER3'']"
  by (simp add: getAvailableChannels_def probe_from.simps isAvailable_def third_query_fails_def
      five_relays_def power_command_def fetch_json_def json_of_def is_on_or_off_def)

theorem probe_transport_error_witness:
  "(3::nat) \<in> {1..9} \<and> getStatus third_query_fails (power_command 3) = Inl TransportFailure
   \<and> answers_json third_query_fails 1 \<and> answers_json third_query_fails 2
   \<and> fst (getAvailableChannels third_query_fails) = Inl TransportFailure"
proof -
  have a: "(3::nat) \<in> {1..9}" by simp
  have b: "getStatus third_query_fails (power_command 3) = Inl TransportFailure"
    by (simp add: third_query_fails_def power_command_def)
  have "k \<in> {1..<3} \<Longrightarrow> answers_json third_query_fails k" for k :: nat
  proof -
    assume "k \<in> {1..<3}"
    then have "k = 1 \<or> k = 2" by auto
    then show ?thesis
      by (auto simp: answers_json_def third_query_fails_def five_relays_def power_command_def)
  qed
  then have c: "\<forall>k\<in>{1..<3}. answers_json third_query_fails k" by blast
  show ?thesis using probe_transport_error [OF a b] a b c by simp
qed

section \<open>Writes: results\<close>

lemma check_result_logs_only: "\<exists>ms. snd (check_result a p) = p\<lparr>logged := logged p @ ms\<rparr>"
proof -
  have one: "\<exists>ms. debug m p = p\<lparr>logged := logged p @ ms\<rparr>" for m
    by (rule exI [of _ "[m]"]) (simp add: debug_def)
  have two: "\<exists>ms. debug m2 (debug m1 p) = p\<lparr>logged := logged p @ ms\<rparr>" for m1 m2
    by (rule exI [of _ "[m1, m2]"]) (simp add: debug_def)
  have none: "\<exists>ms. p = p\<lparr>logged := logged p @ ms\<rparr>"
    by (rule exI [of _ "[]"]) simp
  show ?thesis
    using one two none
    by (simp add: check_result_def Let_def split: sum.splits option.splits)
qed



lemma check_result_sent: "sent (snd (check_result a p)) = sent p"
  using check_result_logs_only [of a p] by auto

lemma check_result_not_200:
  "status r \<noteq> 200 \<Longrightarrow> check_result (Inr r) p = (Inr (), debug (CouldNotSetStatus (status r)) p)"
  by (simp add: check_result_def)


lemma writable_setValue_resolves: "fst (writable_setValue accepts set_closure v p) = Inr ()"
  by (simp add: writable_setValue_def split: prod.splits sum.splits)

lemma plug_setValue_resolves: "fst (plug_setValue accepts t v p) = Inr ()"
  by (simp add: plug_setValue_def Let_def split: prod.splits sum.splits)


lemma writable_setValue_not_200:
  assumes "accepts v"
    and "set_closure v (setCachedValueAndNotify v (debug SetValueOf p)) =
           check_result (Inr r) (send rq (setCachedValueAndNotify v (debug SetValueOf p)))"
    and "status r \<noteq> 200"
  shows "snd (writable_setValue accepts set_closure v p) =
           debug (CouldNotSetStatus (status r))
             (send rq (setCachedValueAndNotify v (debug SetValueOf p)))"
  using assms
  by (simp add: writable_setValue_def base_setValue_def check_result_not_200 unawaited_def)

lemma not_200_state:
  "cached (debug (CouldNotSetStatus st) (send rq (setCachedValueAndNotify v (debug SetValueOf p))))
     = Some v"
  "logged (debug (CouldNotSetStatus st) (send rq (setCachedValueAndNotify v (debug SetValueOf p))))
     = logged p @ [SetValueOf, CouldNotSetStatus st]"
  by (simp_all add: debug_def send_def setCachedValueAndNotify_def)

lemma channels_after_caching: "channels (setCachedValueAndNotify v (debug m p)) = channels p"
  by (simp add: setCachedValueAndNotify_def debug_def)

text \<open>
  Claim C2. For each writable property (on/off, brightness, color and color temperature
  of a light, on/off of a plug) and each written value that the base class accepts and
  caches: when the device answers the command with a status other than 200, the write
  logs the status and returns, the promise resolves, and the cached value is still the
  written value afterwards; nothing is rolled back.
\<close>

theorem write_failure_no_rollback:
  assumes "\<And>c x. \<exists>r. setStatus t c x = Inr r \<and> status r = st" and "st \<noteq> 200"
  shows "(accepts_b b \<longrightarrow>
            cached (snd (onoff_setValue accepts_b t b p_on)) = Some b
          \<and> logged (snd (onoff_setValue accepts_b t b p_on))
              = logged p_on @ [SetValueOf, CouldNotSetStatus st])
       \<and> (accepts_n (Some (JNum n)) \<longrightarrow>
            cached (snd (brightness_setValue accepts_n t n p_br)) = Some (Some (JNum n))
          \<and> logged (snd (brightness_setValue accepts_n t n p_br))
              = logged p_br @ [SetValueOf, CouldNotSetStatus st])
       \<and> (accepts_c c \<longrightarrow>
            cached (snd (color_setValue accepts_c ex t c p_co)) = Some c
          \<and> logged (snd (color_setValue accepts_c ex t c p_co))
              = logged p_co @ [SetValueOf, CouldNotSetStatus st])
       \<and> (accepts_k k \<longrightarrow>
            cached (snd (ct_setValue accepts_k k2t t k p_ct)) = Some k
          \<and> logged (snd (ct_setValue accepts_k k2t t k p_ct))
              = logged p_ct @ [SetValueOf, CouldNotSetStatus st])
       \<and> (accepts_b b \<longrightarrow>
            cached (snd (plug_setValue accepts_b t b p_pl)) = Some b
          \<and> logged (snd (plug_setValue accepts_b t b p_pl))
              = logged p_pl @ [SetValueOf, CouldNotSetStatus st])
       \<and> fst (onoff_setValue accepts_b t b p_on) = Inr ()
       \<and> fst (brightness_setValue accepts_n t n p_br) = Inr ()
       \<and> fst (color_setValue accepts_c ex t c p_co) = Inr ()
       \<and> fst (ct_setValue accepts_k k2t t k p_ct) = Inr ()
       \<and> fst (plug_setValue accepts_b t b p_pl) = Inr ()"
proof -
  have answer: "\<exists>r. setStatus t c x = Inr r \<and> status r = st \<and> status r \<noteq> 200" for c x
    using assms(1) [of c x] assms(2) by auto
  have 1: "cached (snd (onoff_setValue accepts_b t b p_on)) = Some b
      \<and> logged (snd (onoff_setValue accepts_b t b p_on)) = logged p_on @ [SetValueOf, CouldNotSetStatus st]"
    if a: "accepts_b b"
  proof -
    obtain r where r: "setStatus t ''Power'' (if b then ''ON'' else ''OFF'') = Inr r"
      "status r = st" "status r \<noteq> 200"
      using answer by blast
    show ?thesis
      unfolding onoff_setValue_def
      using writable_setValue_not_200 [of accepts_b b "onoff_set t" p_on r
          "Set ''Power'' (if b then ''ON'' else ''OFF'')"] a r
      by (simp add: onoff_set_def Let_def not_200_state)
  qed
  have 2: "cached (snd (brightness_setValue accepts_n t n p_br)) = Some (Some (JNum n))
      \<and> logged (snd (brightness_setValue accepts_n t n p_br)) = logged p_br @ [SetValueOf, CouldNotSetStatus st]"
    if a: "accepts_n (Some (JNum n))"
  proof -
    obtain r where r: "setStatus t ''Dimmer'' (string_of_int n) = Inr r"
      "status r = st" "status r \<noteq> 200"
      using answer by blast
    show ?thesis
      unfolding brightness_setValue_def
      using writable_setValue_not_200 [of accepts_n "Some (JNum n)" "\<lambda>v. brightness_set t n" p_br r
          "Set ''Dimmer'' (string_of_int n)"] a r
      by (simp add: brightness_set_def not_200_state)
  qed
  have 3: "cached (snd (color_setValue accepts_c ex t c p_co)) = Some c
      \<and> logged (snd (color_setValue accepts_c ex t c p_co)) = logged p_co @ [SetValueOf, CouldNotSetStatus st]"
    if a: "accepts_c c"
  proof -
    let ?x = "color_to_send ex (channels p_co) c"
    obtain r where r: "setStatus t ''Color'' ?x = Inr r" "status r = st" "status r \<noteq> 200"
      using answer by blast
    show ?thesis
      unfolding color_setValue_def
      using writable_setValue_not_200 [of accepts_c c "color_set ex t" p_co r "Set ''Color'' ?x"] a r
      by (simp add: color_set_def Let_def not_200_state channels_after_caching)
  qed
  have 4: "cached (snd (ct_setValue accepts_k k2t t k p_ct)) = Some k
      \<and> logged (snd (ct_setValue accepts_k k2t t k p_ct)) = logged p_ct @ [SetValueOf, CouldNotSetStatus st]"
    if a: "accepts_k k"
  proof -
    obtain r where r: "setStatus t ''CT'' (k2t k) = Inr r" "status r = st" "status r \<noteq> 200"
      using answer by blast
    show ?thesis
      unfolding ct_setValue_def
      using writable_setValue_not_200 [of accepts_k k "ct_set k2t t" p_ct r "Set ''CT'' (k2t k)"] a r
      by (simp add: ct_set_def not_200_state)
  qed
  have 5: "cached (snd (plug_setValue accepts_b t b p_pl)) = Some b
      \<and> logged (snd (plug_setValue accepts_b t b p_pl)) = logged p_pl @ [SetValueOf, CouldNotSetStatus st]"
    if a: "accepts_b b"
  proof -
    obtain r where r: "setStatus t (''Power'' @ channel p_pl) (if b then ''ON'' else ''OFF'') = Inr r"
      "status r = st" "status r \<noteq> 200"
      using answer by blast
    show ?thesis
      using a r
      by (simp add: plug_setValue_def base_setValue_def Let_def check_result_not_200
          debug_def send_def setCachedValueAndNotify_def)
  qed
  show ?thesis
    using 1 2 3 4 5
    by (simp add: writable_setValue_resolves plug_setValue_resolves onoff_setValue_def
      brightness_setValue_def color_setValue_def ct_setValue_def)
qed

text \<open>A device answering 500: a write of \<open>true\<close> leaves \<open>true\<close> cached.\<close>

theorem write_failure_no_rollback_witness:
  "cached (snd (onoff_setValue (\<lambda>v. True) (answering 500 None) True new_property)) = Some True
   \<and> logged (snd (onoff_setValue (\<lambda>v. True) (answering 500 None) True new_property))
       = [SetValueOf, CouldNotSetStatus 500]
   \<and> cached (snd (brightness_setValue (\<lambda>v. True) (answering 500 None) 40 new_property))
       = Some (Some (JNum 40))
   \<and> cached (snd (color_setValue (\<lambda>v. True) None (answering 500 None) ''#808080'' new_color_property))
       = Some ''#808080''
   \<and> cached (snd (ct_setValue (\<lambda>v. True) string_of_int (answering 500 None) 2700 new_property))
       = Some 2700
   \<and> cached (snd (plug_setValue (\<lambda>v. True) (answering 500 None) True (new_plug_onoff ''2'')))
       = Some True"
proof -
  have h: "\<And>c x. \<exists>r. setStatus (answering 500 None) c x = Inr r \<and> status r = 500"
    by (simp add: answering_def)
  have g: "(500::nat) \<noteq> 200" by simp
  show ?thesis
    using write_failure_no_rollback [OF h g, where accepts_b = "\<lambda>v. True" and b = True
        and p_on = new_property and accepts_n = "\<lambda>v. True" and n = 40 and p_br = new_property
        and accepts_c = "\<lambda>v. True" and c = "''#808080''" and ex = None
        and p_co = new_color_property and accepts_k = "\<lambda>v. True" and k = 2700
        and ?k2t = string_of_int and p_ct = new_property and p_pl = "new_plug_onoff ''2''"]
    by (simp add: new_property_def)
qed

section \<open>Polls: results\<close>



















text \<open>
  The \<open>set\<close> closure of a light's writable property is called without \<open>await\<close>: when
  the device cannot be reached, its rejection is not seen by the handler of \<open>setValue\<close>
  and stays unhandled, where the plug's \<open>setValue\<close> logs the failure.
\<close>

lemma light_write_rejection_unhandled:
  "unhandled (snd (onoff_setValue (\<lambda>v. True) unreachable True new_property)) = [TransportFailure]
   \<and> logged (snd (onoff_setValue (\<lambda>v. True) unreachable True new_property)) = [SetValueOf]"
  by (simp add: onoff_setValue_def writable_setValue_def base_setValue_def unawaited_def
      onoff_set_def check_result_def unreachable_def new_property_def debug_def send_def
      setCachedValueAndNotify_def)

subsection \<open>Color temperature\<close>

text \<open>
  Claim C6, as the code has it. The guard of the color temperature poll tests the parsed
  result, not its \<open>CT\<close> field: a result that is falsy (\<open>null\<close>, \<open>false\<close>, \<open>0\<close>, the
  empty string) skips the update and the cached value is retained; a truthy result is
  always passed on, so a result without a \<open>CT\<close> field calls \<open>update\<close> with
  \<open>tasmotaToKelvin(undefined)\<close> and overwrites the cached value.
\<close>

theorem ct_poll_missing_value:
  assumes "fetch_json (getStatus t ''CT'') = Inr result"
  shows "ct_poll t2k t p =
           (Inr (), if truthy result then update (t2k (get_prop_opt result ''CT'')) (send (Get ''CT'') p)
                    else send (Get ''CT'') p)
       \<and> (truthy result \<and> get_prop_opt result ''CT'' = None \<longrightarrow>
            cached (snd (ct_poll t2k t p)) = Some (t2k None)
          \<and> notified (snd (ct_poll t2k t p)) = notified p @ [t2k None])
       \<and> (\<not> truthy result \<longrightarrow>
            cached (snd (ct_poll t2k t p)) = cached p
          \<and> notified (snd (ct_poll t2k t p)) = notified p)"
  using assms by (simp add: ct_poll_def Let_def update_def setCachedValueAndNotify_def send_def)

theorem ct_poll_missing_value_witness:
  "fetch_json (getStatus (answering 200 (Some (JObj []))) ''CT'') = Inr (JObj [])
   \<and> truthy (JObj []) \<and> get_prop_opt (JObj []) ''CT'' = None
   \<and> cached (snd (ct_poll example_tasmotaToKelvin (answering 200 (Some (JObj [])))
        (new_property\<lparr>cached := Some (Num 4000)\<rparr>))) = Some NaN
   \<and> \<not> truthy JNull
   \<and> cached (snd (ct_poll example_tasmotaToKelvin (answering 200 (Some JNull))
        (new_property\<lparr>cached := Some (Num 4000)\<rparr>))) = Some (Num 4000)"
proof -
  have a: "fetch_json (getStatus (answering 200 (Some (JObj []))) ''CT'') = Inr (JObj [])"
    by (simp add: answering_def fetch_json_def json_of_def)
  have b: "fetch_json (getStatus (answering 200 (Some JNull)) ''CT'') = Inr JNull"
    by (simp add: answering_def fetch_json_def json_of_def)
  show ?thesis
    using ct_poll_missing_value [OF a, of example_tasmotaToKelvin "new_property\<lparr>cached := Some (Num 4000)\<rparr>"]
      ct_poll_missing_value [OF b, of example_tasmotaToKelvin "new_property\<lparr>cached := Some (Num 4000)\<rparr>"]
      a
    by (simp add: example_tasmotaToKelvin_def new_property_def update_def
        setCachedValueAndNotify_def send_def)
qed

text \<open>
  A response that parses but has no \<open>CT\<close> field: the cached 4000 is overwritten by the
  conversion of \<open>undefined\<close>, and one update is reported.
\<close>

theorem ct_poll_missing_value_counterexample:
  "cached (new_property\<lparr>cached := Some (Num 4000)\<rparr>) = Some (Num 4000)
   \<and> cached (snd (ct_poll example_tasmotaToKelvin (answering 200 (Some (JObj [(''Dimmer'', JNum 40)])))
        (new_property\<lparr>cached := Some (Num 4000)\<rparr>))) = Some NaN
   \<and> notified (snd (ct_poll example_tasmotaToKelvin (answering 200 (Some (JObj [(''Dimmer'', JNum 40)])))
        (new_property\<lparr>cached := Some (Num 4000)\<rparr>))) = [NaN]"
  by (simp add: ct_poll_def answering_def fetch_json_def json_of_def Let_def update_def
      setCachedValueAndNotify_def send_def example_tasmotaToKelvin_def new_property_def)

subsection \<open>On/off\<close>

lemma loose_eq_ON_unstructured:
  "\<not> structured pw \<Longrightarrow> loose_eq_ON pw = Inr (pw = Some (JStr ''ON''))"
  by (cases pw rule: loose_eq_ON.cases) simp_all

text \<open>
  Claim C10, as the code has it. When the body parses to a value other than \<open>null\<close>,
  the on/off poll of a light and \<open>updateValue\<close> of a plug compute the boolean as
  \<open>POWER == 'ON'\<close> with JavaScript's loose equality. For a \<open>POWER\<close> that is absent, \<open>null\<close>,
  a boolean, a number or a string, the boolean is true exactly for the string \<open>ON\<close>: every
  other such value, \<open>OFF\<close> and an absent field included, is read as false and overwrites
  a cached true (on the plug, when the last polled state is not false already; when it
  is, the cache is left as it is). An array or object is converted to a string first, so the
  array \<open>["ON"]\<close> is read as true. A body that parses to \<open>null\<close> makes the light's poll
  and the plug's \<open>updateValue\<close> throw a TypeError, and the cached value, the last state
  and the reported values stay as they were.
\<close>

theorem onoff_poll_reads_loose_equality:
  assumes "\<And>c. fetch_json (getStatus t c) = Inr result"
  shows "(result \<noteq> JNull \<longrightarrow>
           onoff_poll t p =
             (case loose_eq_ON (get_prop_opt result ''POWER'') of
                Inl e \<Rightarrow> (Inl e, send (Get ''Power'') p)
              | Inr b \<Rightarrow> (Inr (), update b (send (Get ''Power'') p)))
         \<and> updateValue t q =
             (case loose_eq_ON (get_prop_opt result ''POWER'') of
                Inl e \<Rightarrow> (Inl e, send (Get (''Power'' @ channel q)) q)
              | Inr b \<Rightarrow>
                  if lastState q \<noteq> Some b
                  then (Inr (), debug (ValueChanged b)
                         (setCachedValueAndNotify b ((send (Get (''Power'' @ channel q)) q)\<lparr>lastState := Some b\<rparr>)))
                  else (Inr (), send (Get (''Power'' @ channel q)) q))
         \<and> (\<not> structured (get_prop_opt result ''POWER'') \<longrightarrow>
              loose_eq_ON (get_prop_opt result ''POWER'')
                = Inr (get_prop_opt result ''POWER'' = Some (JStr ''ON'')))
         \<and> (\<not> structured (get_prop_opt result ''POWER'') \<and> get_prop_opt result ''POWER'' \<noteq> Some (JStr ''ON'')
              \<longrightarrow> cached (snd (onoff_poll t p)) = Some False
                \<and> (lastState q \<noteq> Some False \<longrightarrow> cached (snd (updateValue t q)) = Some False)
                \<and> (lastState q = Some False \<longrightarrow> cached (snd (updateValue t q)) = cached q))
         \<and> (get_prop_opt result ''POWER'' = Some (JArr [JStr ''ON''])
              \<longrightarrow> cached (snd (onoff_poll t p)) = Some True
                \<and> (lastState q \<noteq> Some True \<longrightarrow> cached (snd (updateValue t q)) = Some True)))
       \<and> (result = JNull \<longrightarrow>
             onoff_poll t p = (Inl TypeError, send (Get ''Power'') p)
           \<and> cached (snd (onoff_poll t p)) = cached p
           \<and> notified (snd (onoff_poll t p)) = notified p
           \<and> updateValue t q = (Inl TypeError, send (Get (''Power'' @ channel q)) q)
           \<and> cached (snd (updateValue t q)) = cached q
           \<and> lastState (snd (updateValue t q)) = lastState q
           \<and> notified (snd (updateValue t q)) = notified q)"
proof (intro conjI impI)
  assume nn: "result \<noteq> JNull"
  have g: "get_prop result ''POWER'' = Inr (get_prop_opt result ''POWER'')"
    using nn by (rule get_prop_non_null)
  show 1: "onoff_poll t p =
           (case loose_eq_ON (get_prop_opt result ''POWER'') of
              Inl e \<Rightarrow> (Inl e, send (Get ''Power'') p)
            | Inr b \<Rightarrow> (Inr (), update b (send (Get ''Power'') p)))"
    by (simp add: onoff_poll_def Let_def assms g)
  show 2: "updateValue t q =
           (case loose_eq_ON (get_prop_opt result ''POWER'') of
              Inl e \<Rightarrow> (Inl e, send (Get (''Power'' @ channel q)) q)
            | Inr b \<Rightarrow>
                if lastState q \<noteq> Some b
                then (Inr (), debug (ValueChanged b)
                       (setCachedValueAndNotify b ((send (Get (''Power'' @ channel q)) q)\<lparr>lastState := Some b\<rparr>)))
                else (Inr (), send (Get (''Power'' @ channel q)) q))"
    by (simp add: updateValue_def Let_def assms g send_def split: sum.splits)
  {
    assume "\<not> structured (get_prop_opt result ''POWER'')"
    then show "loose_eq_ON (get_prop_opt result ''POWER'')
        = Inr (get_prop_opt result ''POWER'' = Some (JStr ''ON''))"
      by (rule loose_eq_ON_unstructured)
  }
  {
    assume off: "\<not> structured (get_prop_opt result ''POWER'')
      \<and> get_prop_opt result ''POWER'' \<noteq> Some (JStr ''ON'')"
    then have l: "loose_eq_ON (get_prop_opt result ''POWER'') = Inr False"
      by (simp add: loose_eq_ON_unstructured)
    show "cached (snd (onoff_poll t p)) = Some False"
      by (simp add: 1 l update_def setCachedValueAndNotify_def)
    {
      assume "lastState q \<noteq> Some False"
      then show "cached (snd (updateValue t q)) = Some False"
        by (simp add: 2 l setCachedValueAndNotify_def debug_def)
    }
    {
      assume "lastState q = Some False"
      then show "cached (snd (updateValue t q)) = cached q"
        by (simp add: 2 l send_def)
    }
  }
  {
    assume arr: "get_prop_opt result ''POWER'' = Some (JArr [JStr ''ON''])"
    have l: "loose_eq_ON (get_prop_opt result ''POWER'') = Inr True"
      by (simp add: arr)
    show "cached (snd (onoff_poll t p)) = Some True"
      by (simp add: 1 l update_def setCachedValueAndNotify_def)
    {
      assume "lastState q \<noteq> Some True"
      then show "cached (snd (updateValue t q)) = Some True"
        by (simp add: 2 l setCachedValueAndNotify_def debug_def)
    }
  }
next
  assume null: "result = JNull"
  show 3: "onoff_poll t p = (Inl TypeError, send (Get ''Power'') p)"
    using assms [of "''Power''"] null by (simp add: onoff_poll_def Let_def)
  show 4: "updateValue t q = (Inl TypeError, send (Get (''Power'' @ channel q)) q)"
    using assms [of "''Power'' @ channel q"] null by (simp add: updateValue_def Let_def)
  show "cached (snd (onoff_poll t p)) = cached p" by (simp add: 3 send_def)
  show "notified (snd (onoff_poll t p)) = notified p" by (simp add: 3 send_def)
  show "cached (snd (updateValue t q)) = cached q" by (simp add: 4 send_def)
  show "lastState (snd (updateValue t q)) = lastState q" by (simp add: 4 send_def)
  show "notified (snd (updateValue t q)) = notified q" by (simp add: 4 send_def)
qed

theorem onoff_poll_reads_loose_equality_witness:
  "cached (snd (onoff_poll (answering 200 (Some (JObj [(''POWER'', JStr ''OFF'')])))
      (new_property\<lparr>cached := Some True\<rparr>))) = Some False
   \<and> cached (snd (onoff_poll (answering 200 (Some (JObj [])))
      (new_property\<lparr>cached := Some True\<rparr>))) = Some False
   \<and> cached (snd (updateValue (answering 200 (Some (JObj [(''POWER2'', JStr ''ON'')])))
      ((new_plug_onoff ''2'')\<lparr>cached := Some True, lastState := Some True\<rparr>))) = Some False
   \<and> cached (snd (updateValue (answering 200 (Some (JObj [(''POWER'', JArr [JStr ''ON''])])))
      ((new_plug_onoff [])\<lparr>cached := Some False, lastState := Some False\<rparr>))) = Some True
   \<and> updateValue (answering 200 (Some JNull))
        ((new_plug_onoff [])\<lparr>cached := Some True, lastState := Some True\<rparr>)
       = (Inl TypeError, send (Get ''Power'')
           ((new_plug_onoff [])\<lparr>cached := Some True, lastState := Some True\<rparr>))
   \<and> cached (snd (updateValue (answering 200 (Some JNull))
        ((new_plug_onoff [])\<lparr>cached := Some True, lastState := Some True\<rparr>))) = Some True
   \<and> cached (snd (onoff_poll (answering 200 (Some JNull))
        (new_property\<lparr>cached := Some True\<rparr>))) = Some True"
proof -
  have a: "\<And>c. fetch_json (getStatus (answering 200 (Some j)) c) = Inr j" for j
    by (simp add: answering_def fetch_json_def json_of_def)
  show ?thesis
    using onoff_poll_reads_loose_equality [OF a, of "JObj [(''POWER'', JStr ''OFF'')]"
        "new_property\<lparr>cached := Some True\<rparr>" "new_plug_onoff []"]
      onoff_poll_reads_loose_equality [OF a, of "JObj []"
        "new_property\<lparr>cached := Some True\<rparr>" "new_plug_onoff []"]
      onoff_poll_reads_loose_equality [OF a, of "JObj [(''POWER2'', JStr ''ON'')]"
        "new_property\<lparr>cached := Some True\<rparr>"
        "(new_plug_onoff ''2'')\<lparr>cached := Some True, lastState := Some True\<rparr>"]
      onoff_poll_reads_loose_equality [OF a, of "JObj [(''POWER'', JArr [JStr ''ON''])]"
        "new_property\<lparr>cached := Some True\<rparr>"
        "(new_plug_onoff [])\<lparr>cached := Some False, lastState := Some False\<rparr>"]
      onoff_poll_reads_loose_equality [OF a, of JNull
        "new_property\<lparr>cached := Some True\<rparr>"
        "(new_plug_onoff [])\<lparr>cached := Some True, lastState := Some True\<rparr>"]
    by (simp add: new_property_def new_plug_onoff_def update_def setCachedValueAndNotify_def
        send_def debug_def)
qed

text \<open>
  The array \<open>["ON"]\<close> is not the string \<open>ON\<close> and is read as true, by the light and by
  the plug; a \<open>null\<close> body has no \<open>POWER\<close> field and is not read as false: the poll
  throws and the cached true stays, on the light and on the plug.
\<close>

theorem onoff_poll_reads_loose_equality_counterexample:
  "cached (snd (onoff_poll (answering 200 (Some (JObj [(''POWER'', JArr [JStr ''ON''])])))
      (new_property\<lparr>cached := Some False\<rparr>))) = Some True
   \<and> fst (onoff_poll (answering 200 (Some JNull)) (new_property\<lparr>cached := Some True\<rparr>))
       = Inl TypeError
   \<and> cached (snd (onoff_poll (answering 200 (Some JNull)) (new_property\<lparr>cached := Some True\<rparr>)))
       = Some True
   \<and> cached (snd (updateValue (answering 200 (Some (JObj [(''POWER'', JArr [JStr ''ON''])])))
        ((new_plug_onoff [])\<lparr>cached := Some False, lastState := Some False\<rparr>))) = Some True
   \<and> fst (updateValue (answering 200 (Some JNull))
        ((new_plug_onoff [])\<lparr>cached := Some True, lastState := Some True\<rparr>)) = Inl TypeError
   \<and> cached (snd (updateValue (answering 200 (Some JNull))
        ((new_plug_onoff [])\<lparr>cached := Some True, lastState := Some True\<rparr>))) = Some True"
  by (simp add: onoff_poll_def updateValue_def answering_def fetch_json_def json_of_def Let_def
      update_def setCachedValueAndNotify_def send_def debug_def new_property_def
      new_plug_onoff_def)

section \<open>Color width: results\<close>












section \<open>White channel: results\<close>

lemma writable_setValue_sent:
  assumes "accepts v" and "\<And>q. sent (snd (set_closure v q)) = sent q @ [rq q]"
  shows "sent (snd (writable_setValue accepts set_closure v p)) =
           sent p @ [rq (setCachedValueAndNotify v (debug SetValueOf p))]"
proof -
  let ?q = "setCachedValueAndNotify v (debug SetValueOf p)"
  obtain x r where c: "set_closure v ?q = (x, r)"
    by (cases "set_closure v ?q")
  have "sent r = sent ?q @ [rq ?q]" using assms(2) [of ?q] c by simp
  then have "sent r = sent p @ [rq ?q]" by (simp add: setCachedValueAndNotify_def debug_def)
  then show ?thesis
    using assms(1) c
    by (cases x) (simp_all add: writable_setValue_def base_setValue_def unawaited_def)
qed

lemma color_setValue_sent:
  assumes "accepts v"
  shows "sent (snd (color_setValue accepts ex t v p)) =
           sent p @ [Set ''Color'' (color_to_send ex (channels p) v)]"
proof -
  have "sent (snd (color_set ex t v q)) = sent q @ [Set ''Color'' (color_to_send ex (channels q) v)]"
    for q :: "'a color_property_scheme"
    by (simp add: color_set_def Let_def send_def check_result_sent)
  from writable_setValue_sent [of accepts v "color_set ex t"
      "\<lambda>q. Set ''Color'' (color_to_send ex (channels q) v)" p, OF assms this]
  show ?thesis by (simp add: color_setValue_def channels_after_caching)
qed

text \<open>
  Claim C4. With \<open>useWhiteLedInColorMode\<close> enabled and a width greater than 3, a write
  of \<open>#rrggbb\<close> sends \<open>#000000rr\<close> to the device when the three pairs of hex digits are
  equal as written, and sends the value unchanged when they are not.
\<close>

theorem white_led_rewrite:
  assumes "useWhiteLedInColorMode x" and "greater_than (channels p) 3" and "accepts v"
    and "v = [CHR ''#'', r1, r2, g1, g2, b1, b2]"
  shows "sent (snd (color_setValue accepts (Some x) t v p)) =
           sent p @ [Set ''Color'' (if [r1, r2] = [g1, g2] \<and> [g1, g2] = [b1, b2]
                                    then ''#000000'' @ [r1, r2] else v)]"
  using assms
  by (auto simp: color_setValue_sent color_to_send_def substring_def repeat3_def Let_def)

theorem white_led_rewrite_witness:
  "sent (snd (color_setValue (\<lambda>v. True) (Some \<lparr>useWhiteLedInColorMode = True,
        multiChannelRelay = False, temperatureSensor = False\<rparr>)
      (answering 200 (Some (JObj []))) ''#808080'' (new_color_property\<lparr>channels := Num 4\<rparr>)))
     = [Set ''Color'' ''#00000080'']
   \<and> sent (snd (color_setValue (\<lambda>v. True) (Some \<lparr>useWhiteLedInColorMode = True,
        multiChannelRelay = False, temperatureSensor = False\<rparr>)
      (answering 200 (Some (JObj []))) ''#800000'' (new_color_property\<lparr>channels := Num 4\<rparr>)))
     = [Set ''Color'' ''#800000'']"
proof -
  let ?x = "\<lparr>useWhiteLedInColorMode = True, multiChannelRelay = False, temperatureSensor = False\<rparr>"
  let ?p = "new_color_property\<lparr>channels := Num 4\<rparr>"
  have a: "useWhiteLedInColorMode ?x" by simp
  have b: "greater_than (channels ?p) 3" by simp
  have c: "(\<lambda>v::string. True) ''#808080''" "(\<lambda>v::string. True) ''#800000''" by simp_all
  have d: "''#808080'' = [CHR ''#'', CHR ''8'', CHR ''0'', CHR ''8'', CHR ''0'', CHR ''8'', CHR ''0'']"
    "''#800000'' = [CHR ''#'', CHR ''8'', CHR ''0'', CHR ''0'', CHR ''0'', CHR ''0'', CHR ''0'']"
    by simp_all
  show ?thesis
    using white_led_rewrite [OF a b c(1) d(1), of "answering 200 (Some (JObj []))"]
      white_led_rewrite [OF a b c(2) d(2), of "answering 200 (Some (JObj []))"]
    by (simp add: new_color_property_def)
qed

section \<open>Change detection on the plug: results\<close>

lemma updateValue_effect:
  "notified (snd (updateValue t p)) =
     notified p @ (case polled_value t (channel p) of
                     None \<Rightarrow> []
                   | Some b \<Rightarrow> if lastState p \<noteq> Some b then [b] else [])"
  "lastState (snd (updateValue t p)) =
     (case polled_value t (channel p) of None \<Rightarrow> lastState p | Some b \<Rightarrow> Some b)"
  "channel (snd (updateValue t p)) = channel p"
  by (simp_all add: updateValue_def polled_value_def Let_def send_def debug_def
      setCachedValueAndNotify_def split: sum.splits)

lemma unawaited_plug:
  "notified (unawaited poll p) = notified (snd (poll p))"
  "lastState (unawaited poll p) = lastState (snd (poll p))"
  "channel (unawaited poll p) = channel (snd (poll p))"
  by (simp_all add: unawaited_def split: prod.splits sum.splits)

lemma plug_cycles_notified:
  "notified (plug_cycles ts p) =
     notified p @ changes (lastState p) (List.map_filter (\<lambda>t. polled_value t (channel p)) ts)"
  unfolding plug_cycles_def
proof (induction ts arbitrary: p)
  case Nil
  then show ?case by (simp add: List.map_filter_simps)
next
  case (Cons t ts)
  show ?case
    by (cases "polled_value t (channel p)")
      (simp_all add: Cons.IH unawaited_plug updateValue_effect List.map_filter_simps)
qed

lemma changes_Some: "changes (Some a) bs = tl (remdups_adj (a # bs))"
  by (induction bs arbitrary: a) auto

lemma changes_None: "changes None bs = remdups_adj bs"
  by (cases bs) (simp_all add: changes_Some)

lemma changes_replicate: "changes (Some b) (replicate n b) = []"
  by (induction n) simp_all

lemma changes_replicate_Suc: "changes None (replicate (Suc n) b) = [b]"
  by (simp add: changes_replicate)

lemma map_filter_replicate:
  "f x = Some y \<Longrightarrow> List.map_filter f (replicate k x) = replicate k y"
  by (induction k) (simp_all add: List.map_filter_simps)

text \<open>
  Claim C5. One poll cycle of a plug's on/off property reports a value exactly when the
  cycle reads a boolean that differs from the stored last state. Hence, over any
  sequence of cycles from the initial state, the reported values are the booleans read
  with adjacent repetitions removed; any number of consecutive cycles reading the same
  boolean, two or three included, report it once.
\<close>

theorem plug_change_suppression:
  "notified (unawaited (updateValue t) p) =
     notified p @ (case polled_value t (channel p) of
                     None \<Rightarrow> []
                   | Some b \<Rightarrow> if lastState p \<noteq> Some b then [b] else [])
   \<and> notified (plug_cycles ts (new_plug_onoff ch)) =
       remdups_adj (List.map_filter (\<lambda>t. polled_value t ch) ts)
   \<and> (polled_value t ch = Some b \<longrightarrow>
        notified (plug_cycles (replicate (Suc n) t) (new_plug_onoff ch)) = [b])"
proof -
  have init: "notified (new_plug_onoff ch) = []" "lastState (new_plug_onoff ch) = None"
    "channel (new_plug_onoff ch) = ch"
    by (simp_all add: new_plug_onoff_def)
  have all: "notified (plug_cycles us (new_plug_onoff ch)) =
      changes None (List.map_filter (\<lambda>t. polled_value t ch) us)" for us
    using plug_cycles_notified [of us "new_plug_onoff ch"] by (simp only: init append_Nil)
  have same: "notified (plug_cycles (replicate (Suc n) t) (new_plug_onoff ch)) = [b]"
    if "polled_value t ch = Some b"
    using all [of "replicate (Suc n) t"] map_filter_replicate [of "\<lambda>t. polled_value t ch" t b "Suc n", OF that]
    by (simp only: changes_replicate_Suc)
  show ?thesis
    using same by (simp add: unawaited_plug updateValue_effect all changes_None)
qed

theorem plug_change_suppression_witness:
  "polled_value (answering 200 (Some (JObj [(''POWER'', JStr ''ON'')]))) [] = Some True
   \<and> notified (plug_cycles (replicate 2 (answering 200 (Some (JObj [(''POWER'', JStr ''ON'')]))))
       (new_plug_onoff [])) = [True]
   \<and> notified (plug_cycles (replicate 3 (answering 200 (Some (JObj [(''POWER'', JStr ''ON'')]))))
       (new_plug_onoff [])) = [True]"
proof -
  let ?t = "answering 200 (Some (JObj [(''POWER'', JStr ''ON'')]))"
  have a: "polled_value ?t [] = Some True"
    by (simp add: polled_value_def answering_def fetch_json_def json_of_def)
  have two: "replicate 2 ?t = replicate (Suc 1) ?t" and three: "replicate 3 ?t = replicate (Suc 2) ?t"
    by (simp_all add: numeral_2_eq_2 numeral_3_eq_3)
  have "notified (plug_cycles (replicate (Suc 1) ?t) (new_plug_onoff [])) = [True]"
    using plug_change_suppression [where t = ?t and p = "new_plug_onoff []" and ts = "[]"
        and ch = "[]" and b = True and n = 1] a by blast
  moreover have "notified (plug_cycles (replicate (Suc 2) ?t) (new_plug_onoff [])) = [True]"
    using plug_change_suppression [where t = ?t and p = "new_plug_onoff []" and ts = "[]"
        and ch = "[]" and b = True and n = 2] a by blast
  ultimately show ?thesis
    unfolding two three using a by blast
qed

section \<open>Polling registration: results\<close>

text \<open>
  Claim C9. For each of the four light classes, \<open>startPolling\<close> registers one timer for
  each property the constructor added, in the same order, each with the given interval
  and none twice; a subclass registers what its superclass registers, followed by its
  own properties. \<open>ColorCtLight\<close> registers on, brightness, color, colorTemperature and
  colorMode.
\<close>

theorem startPolling_registers_each_property_once:
  "map fst (startPolling l ms []) = light_properties l
   \<and> distinct (light_properties l)
   \<and> map snd (startPolling l ms []) = replicate (length (light_properties l)) ms
   \<and> startPolling ColorTemperatureLight ms ts = startPolling DimmableLight ms ts @ [(''colorTemperature'', ms)]
   \<and> startPolling ColorLight ms ts = startPolling DimmableLight ms ts @ [(''color'', ms)]
   \<and> startPolling ColorCtLight ms ts =
       startPolling ColorLight ms ts @ [(''colorTemperature'', ms), (''colorMode'', ms)]
   \<and> startPolling ColorCtLight ms [] =
       [(''on'', ms), (''brightness'', ms), (''color'', ms), (''colorTemperature'', ms),
        (''colorMode'', ms)]"
  by (cases l)
    (simp_all add: DimmableLight_startPolling_def ColorTemperatureLight_startPolling_def
      ColorLight_startPolling_def ColorCtLight_startPolling_def property_startPolling_def
      DimmableLight_properties_def ColorTemperatureLight_properties_def
      ColorLight_properties_def ColorCtLight_properties_def addProperty_def)

end
